theory Spec2Isabelle
  imports Main
begin

section \<open>MessageHandler: command routing and event emission\<close>

text \<open>
  A shallow embedding of the \<open>MessageHandler\<close> base class (MessageHandler.jsm,
  \<open>src/unnamed/part_000\<close>). A JavaScript call either returns a value or throws, so
  every method of the model yields a \<open>completion\<close>; the mutable objects it works on
  are passed explicitly as a \<open>state\<close>.
\<close>

subsection \<open>Errors and completions\<close>

text \<open>A JavaScript error object, as far as callers observe it: \<open>err.name\<close> and
  \<open>err.message\<close>.\<close>

record js_error =
  err_name :: string
  err_message :: string

text \<open>\<open>new Error(message)\<close> of the language.\<close>

definition Error :: "string \<Rightarrow> js_error" where
  "Error msg = \<lparr>err_name = ''Error'', err_message = msg\<rparr>"

text \<open>Modelled from the spec: Errors.jsm (\<open>lazy.error\<close>) is not under src; an
  \<open>UnsupportedCommandError\<close> is an error of that name carrying the message it was
  constructed with.\<close>

definition UnsupportedCommandError :: "string \<Rightarrow> js_error" where
  "UnsupportedCommandError msg = \<lparr>err_name = ''UnsupportedCommandError'', err_message = msg\<rparr>"

text \<open>The outcome of a synchronous call: a returned value, or an exception thrown to
  the caller.\<close>

datatype 'a completion = Returned 'a | Threw js_error

text \<open>A settled promise: what an asynchronous operation hands to its caller once it
  has run.\<close>

datatype 'a promise = Resolved 'a | Rejected js_error

subsection \<open>ContextDescriptor, CommandDestination, Command\<close>

text \<open>The enum \<open>ContextDescriptorType\<close> (lines 54-57) and the string each member
  stands for.\<close>

datatype ContextDescriptorType = All | TopBrowsingContext

fun ContextDescriptorType_value :: "ContextDescriptorType \<Rightarrow> string" where
  "ContextDescriptorType_value All = ''All''"
| "ContextDescriptorType_value TopBrowsingContext = ''TopBrowsingContext''"

text \<open>The typedef \<open>ContextDescriptor\<close> (lines 39-47): a type and an optional id.\<close>

record ContextDescriptor =
  cd_type :: ContextDescriptorType
  cd_id :: "string option"

text \<open>Lines 44-46 of the typedef's comment: for \<open>All\<close> the id can be omitted, for
  \<open>TopBrowsingContext\<close> the id is given.\<close>

definition ContextDescriptor_valid :: "ContextDescriptor \<Rightarrow> bool" where
  "ContextDescriptor_valid d =
     (case cd_type d of All \<Rightarrow> True | TopBrowsingContext \<Rightarrow> cd_id d \<noteq> None)"

text \<open>Modelled from the spec: the predicate that matches a descriptor against a context
  is not under src. Sections 3 and 4.4 of the spec: a descriptor of type \<open>All\<close> matches
  every context; a descriptor that names a context by its string id matches exactly the
  concrete context identified by that id. A concrete context is given by its id.\<close>

definition matchContext :: "ContextDescriptor \<Rightarrow> string \<Rightarrow> bool" where
  "matchContext d contextId' =
     (case cd_type d of
        All \<Rightarrow> True
      | TopBrowsingContext \<Rightarrow> cd_id d = Some contextId')"

text \<open>The typedef \<open>CommandDestination\<close> (lines 163-174).\<close>

record CommandDestination =
  dest_type :: string
  dest_id :: "string option"
  dest_contextDescriptor :: "ContextDescriptor option"

text \<open>The typedef \<open>Command\<close> (lines 177-190). The destination is a mandatory
  property; \<open>retryOnAbort\<close> is optional.\<close>

record 'v Command =
  commandName :: string
  moduleName :: string
  params :: 'v
  destination :: CommandDestination
  retryOnAbort :: "bool option"

subsection \<open>The handler and its state\<close>

type_synonym ref = nat

text \<open>The private fields the constructor assigns (lines 94-99). The module cache and
  the events dispatcher are objects of their own: the handler holds references.\<close>

record 'v MessageHandler =
  h_moduleCache :: ref
  h_sessionId :: string
  h_context :: 'v
  h_contextId :: string
  h_eventsDispatcher :: ref

text \<open>What \<open>this.emit(name, payload)\<close> is called with: the event envelope of
  \<open>emitEvent\<close>, the bare data of an internal event, or the handler itself (the
  destroyed notification).\<close>

datatype 'v payload =
  Envelope (ev_name: string) (ev_data: 'v) (ev_isProtocolEvent: bool) (ev_sessionId: string)
| Data 'v
| Handler "'v MessageHandler"

text \<open>The state a method runs in: the handler's fields (\<open>self\<close>), the events it has
  emitted so far through the inherited EventEmitter, oldest first, and the heap \<open>'w\<close> of
  every other object (module cache, events dispatcher, modules, transports).\<close>

record ('v, 'w) state =
  self :: "'v MessageHandler"
  emitted :: "(string \<times> 'v payload) list"
  heap :: 'w

type_synonym ('v, 'w, 'r) js_method =
  "('v, 'w) state \<Rightarrow> 'r completion \<times> ('v, 'w) state"

subsection \<open>Collaborators\<close>

text \<open>A module class, as \<open>supportsCommand\<close> uses it: the static predicate
  \<open>cls.supportsMethod(commandName)\<close>.\<close>

record ModuleClass =
  static_supportsMethod :: "string \<Rightarrow> bool"

text \<open>A module instance, as \<open>handleCommand\<close> uses it: the predicate
  \<open>module.supportsMethod(commandName)\<close> and the call
  \<open>module[commandName](params, destination)\<close>, which runs with access to the handler.\<close>

record ('v, 'w, 'r) Module =
  supportsMethod :: "string \<Rightarrow> bool"
  invoke :: "string \<Rightarrow> 'v \<Rightarrow> CommandDestination \<Rightarrow> ('v, 'w, 'r) js_method"

text \<open>The modules imported through \<open>lazy\<close> (lines 15-23) whose code is not under
  src: ModuleCache.jsm and EventsDispatcher.jsm are taken as parameters. Each acts on
  its own object in the heap, addressed by the reference the handler holds. As the spec
  describes them (sections 4.2 and 4.3), their operations return normally,
  \<open>getAllModuleClasses\<close> is a query that changes nothing, and \<open>getModuleInstance\<close>
  answers an instance or null and may cache what it built.\<close>

record ('v, 'w, 'r) lazy_modules =
  ModuleCache_new :: "'w \<Rightarrow> ref \<times> 'w"
  ModuleCache_getAllModuleClasses ::
    "ref \<Rightarrow> string \<Rightarrow> CommandDestination \<Rightarrow> 'w \<Rightarrow> ModuleClass list"
  ModuleCache_getModuleInstance ::
    "ref \<Rightarrow> string \<Rightarrow> CommandDestination \<Rightarrow> 'w \<Rightarrow> ('v, 'w, 'r) Module option \<times> 'w"
  ModuleCache_destroy :: "ref \<Rightarrow> 'w \<Rightarrow> 'w"
  EventsDispatcher_new :: "'w \<Rightarrow> ref \<times> 'w"
  EventsDispatcher_destroy :: "ref \<Rightarrow> 'w \<Rightarrow> 'w"

text \<open>What a class of handlers provides: the static getters \<open>modulePath\<close> and
  \<open>type\<close>, the static \<open>getIdFromContext\<close>, and the methods a subclass overrides.\<close>

record ('v, 'w, 'r) MessageHandlerClass =
  cls_modulePath :: "string completion"
  cls_type :: "string completion"
  cls_getIdFromContext :: "'v \<Rightarrow> string completion"
  cls_forwardCommand :: "'v Command \<Rightarrow> ('v, 'w, 'r) js_method"
  cls_applyInitialSessionDataItems :: "'v list \<Rightarrow> ('v, 'w, unit promise) js_method"

text \<open>Modelled from the spec: EventEmitter.jsm is not under src. \<open>emit\<close> delivers to
  the listeners registered for the name and contains their exceptions, so the call itself
  never throws; the model records the emission, in order.\<close>

definition emit :: "string \<Rightarrow> 'v payload \<Rightarrow> ('v, 'w) state \<Rightarrow> ('v, 'w) state" where
  "emit name p s = s\<lparr>emitted := emitted s @ [(name, p)]\<rparr>"

subsection \<open>The base class\<close>

text \<open>Lines 285-287: \<open>forwardCommand\<close> of the base class.\<close>

definition forwardCommand :: "'v Command \<Rightarrow> ('v, 'w, 'r) js_method" where
  "forwardCommand command s = (Threw (Error ''Not implemented''), s)"

text \<open>Line 250: \<open>async applyInitialSessionDataItems(sessionDataItems) {}\<close>.\<close>

definition applyInitialSessionDataItems :: "'v list \<Rightarrow> ('v, 'w, unit promise) js_method" where
  "applyInitialSessionDataItems sessionDataItems s = (Returned (Resolved ()), s)"

text \<open>The base class itself: every static member throws (lines 257-278).\<close>

definition MessageHandler_class :: "('v, 'w, 'r) MessageHandlerClass" where
  "MessageHandler_class =
     \<lparr>cls_modulePath = Threw (Error ''Not implemented''),
      cls_type = Threw (Error ''Not implemented''),
      cls_getIdFromContext = (\<lambda>context. Threw (Error ''Not implemented'')),
      cls_forwardCommand = forwardCommand,
      cls_applyInitialSessionDataItems = applyInitialSessionDataItems\<rparr>"

text \<open>Lines 91-100: the constructor. The module cache is created first; if
  \<open>getIdFromContext\<close> throws, construction fails with that error and no events
  dispatcher is created.\<close>

definition MessageHandler_new ::
  "('v, 'w, 'r) lazy_modules \<Rightarrow> ('v, 'w, 'r) MessageHandlerClass \<Rightarrow> string \<Rightarrow> 'v \<Rightarrow> 'w
     \<Rightarrow> (js_error \<times> 'w) + ('v, 'w) state" where
  "MessageHandler_new lz cls sessionId context w =
     (case ModuleCache_new lz w of (mc, w1) \<Rightarrow>
        (case cls_getIdFromContext cls context of
           Threw e \<Rightarrow> Inl (e, w1)
         | Returned cid \<Rightarrow>
             (case EventsDispatcher_new lz w1 of (ed, w2) \<Rightarrow>
                Inr \<lparr>self = \<lparr>h_moduleCache = mc, h_sessionId = sessionId, h_context = context,
                              h_contextId = cid, h_eventsDispatcher = ed\<rparr>,
                     emitted = [], heap = w2\<rparr>)))"

text \<open>Lines 102-116: the accessors.\<close>

definition contextId :: "('v, 'w) state \<Rightarrow> string" where
  "contextId s = h_contextId (self s)"

definition eventsDispatcher :: "('v, 'w) state \<Rightarrow> ref" where
  "eventsDispatcher s = h_eventsDispatcher (self s)"

definition sessionId :: "('v, 'w) state \<Rightarrow> string" where
  "sessionId s = h_sessionId (self s)"

text \<open>\<open>Array.prototype.join\<close> on an array of strings.\<close>

fun join :: "string \<Rightarrow> string list \<Rightarrow> string" where
  "join sep [] = []"
| "join sep [x] = x"
| "join sep (x # y # ys) = x @ sep @ join sep (y # ys)"

definition name :: "('v, 'w, 'r) MessageHandlerClass \<Rightarrow> ('v, 'w) state \<Rightarrow> string completion" where
  "name cls s =
     (case cls_type cls of
        Threw e \<Rightarrow> Threw e
      | Returned t \<Rightarrow> Returned (join ''-'' [sessionId s, t, contextId s]))"

text \<open>Lines 118-128: \<open>destroy\<close>. The trace message reads \<open>this.constructor.type\<close>
  before anything is torn down.\<close>

definition destroy ::
  "('v, 'w, 'r) lazy_modules \<Rightarrow> ('v, 'w, 'r) MessageHandlerClass \<Rightarrow> ('v, 'w, unit) js_method" where
  "destroy lz cls s =
     (case cls_type cls of
        Threw e \<Rightarrow> (Threw e, s)
      | Returned t \<Rightarrow>
          (let s1 = s\<lparr>heap := EventsDispatcher_destroy lz (h_eventsDispatcher (self s)) (heap s)\<rparr>;
               s2 = s1\<lparr>heap := ModuleCache_destroy lz (h_moduleCache (self s1)) (heap s1)\<rparr>
           in (Returned (), emit ''message-handler-destroyed'' (Handler (self s2)) s2)))"

text \<open>Lines 145-160: \<open>emitEvent\<close>. \<open>options\<close> defaults to the empty object and
  \<open>isProtocolEvent\<close> to false.\<close>

record emit_options =
  isProtocolEvent :: "bool option"

text \<open>Line 146, with the default of line 145: \<open>const { isProtocolEvent = false } = options\<close>
  where \<open>options\<close> itself defaults to \<open>{}\<close>.\<close>

definition options_isProtocolEvent :: "emit_options option \<Rightarrow> bool" where
  "options_isProtocolEvent options =
     (let opts = (case options of None \<Rightarrow> \<lparr>isProtocolEvent = None\<rparr> | Some opts \<Rightarrow> opts)
      in case isProtocolEvent opts of None \<Rightarrow> False | Some b \<Rightarrow> b)"

definition emitEvent :: "string \<Rightarrow> 'v \<Rightarrow> emit_options option \<Rightarrow> ('v, 'w, unit) js_method" where
  "emitEvent name' data options s =
     (let isProtocolEvent' = options_isProtocolEvent options;
          s1 = emit ''message-handler-event''
                 (Envelope name' data isProtocolEvent' (sessionId s)) s
      in if \<not> isProtocolEvent' then (Returned (), emit name' (Data data) s1)
         else (Returned (), s1))"

text \<open>Lines 203-205: \<open>getAllModuleClasses\<close>.\<close>

definition getAllModuleClasses ::
  "('v, 'w, 'r) lazy_modules \<Rightarrow> ('v, 'w) state \<Rightarrow> string \<Rightarrow> CommandDestination \<Rightarrow> ModuleClass list" where
  "getAllModuleClasses lz s moduleName' destination' =
     ModuleCache_getAllModuleClasses lz (h_moduleCache (self s)) moduleName' destination' (heap s)"

text \<open>Lines 302-306: \<open>supportsCommand\<close>.\<close>

definition supportsCommand ::
  "('v, 'w, 'r) lazy_modules \<Rightarrow> ('v, 'w) state \<Rightarrow> string \<Rightarrow> string \<Rightarrow> CommandDestination \<Rightarrow> bool" where
  "supportsCommand lz s moduleName' commandName' destination' =
     list_ex (\<lambda>cls. static_supportsMethod cls commandName')
       (getAllModuleClasses lz s moduleName' destination')"

text \<open>Lines 217-235: \<open>handleCommand\<close>. The trace message of lines 219-221 only reads
  strings of the command, whose destination is mandatory, and is left out. The error
  message of line 225 is built from the module name, the command name and the
  destination's type.\<close>

definition handleCommand ::
  "('v, 'w, 'r) lazy_modules \<Rightarrow> ('v, 'w, 'r) MessageHandlerClass \<Rightarrow> 'v Command
     \<Rightarrow> ('v, 'w, 'r) js_method" where
  "handleCommand lz cls command s =
     (if \<not> supportsCommand lz s (moduleName command) (commandName command) (destination command)
      then (Threw (UnsupportedCommandError
              (moduleName command @ ''.'' @ commandName command
                 @ '' not supported for destination '' @ dest_type (destination command))), s)
      else
        (case ModuleCache_getModuleInstance lz (h_moduleCache (self s))
                (moduleName command) (destination command) (heap s) of
           (module, w1) \<Rightarrow>
             (let s1 = s\<lparr>heap := w1\<rparr> in
              case module of
                Some m \<Rightarrow>
                  if supportsMethod m (commandName command)
                  then invoke m (commandName command) (params command) (destination command) s1
                  else cls_forwardCommand cls command s1
              | None \<Rightarrow> cls_forwardCommand cls command s1)))"

subsection \<open>Failures as the caller sees them\<close>

text \<open>The error with which a call that yields a promise fails, whether it is thrown
  synchronously or delivered as a rejection; \<open>None\<close> when the call succeeds.\<close>

definition failure :: "'a promise completion \<Rightarrow> js_error option" where
  "failure x =
     (case x of
        Threw e \<Rightarrow> Some e
      | Returned (Rejected e) \<Rightarrow> Some e
      | Returned (Resolved v) \<Rightarrow> None)"

definition fails_with :: "string \<Rightarrow> 'a promise completion \<Rightarrow> bool" where
  "fails_with n x = (case failure x of Some e \<Rightarrow> err_name e = n | None \<Rightarrow> False)"

subsection \<open>Sequences of operations on one handler\<close>

text \<open>The operations a caller performs on a constructed handler, and the state they
  leave behind whatever they return.\<close>

datatype 'v operation =
  HandleCommand "'v Command"
| EmitEvent string 'v "emit_options option"
| ApplyInitialSessionDataItems "'v list"
| Destroy

fun perform ::
  "('v, 'w, 'r) lazy_modules \<Rightarrow> ('v, 'w, 'r) MessageHandlerClass \<Rightarrow> 'v operation
     \<Rightarrow> ('v, 'w) state \<Rightarrow> ('v, 'w) state" where
  "perform lz cls (HandleCommand command) s = snd (handleCommand lz cls command s)"
| "perform lz cls (EmitEvent name' data options) s = snd (emitEvent name' data options s)"
| "perform lz cls (ApplyInitialSessionDataItems items) s =
     snd (cls_applyInitialSessionDataItems cls items s)"
| "perform lz cls Destroy s = snd (destroy lz cls s)"

fun run ::
  "('v, 'w, 'r) lazy_modules \<Rightarrow> ('v, 'w, 'r) MessageHandlerClass \<Rightarrow> 'v operation list
     \<Rightarrow> ('v, 'w) state \<Rightarrow> ('v, 'w) state" where
  "run lz cls [] s = s"
| "run lz cls (op # ops) s = run lz cls ops (perform lz cls op s)"

text \<open>Code that runs with access to the handler (a module's method, a subclass's
  \<open>forwardCommand\<close> or \<open>applyInitialSessionDataItems\<close>) respects the handler's
  private fields when it never assigns them.\<close>

definition keeps_fields :: "('v, 'w, 'a) js_method \<Rightarrow> bool" where
  "keeps_fields f = (\<forall>s. self (snd (f s)) = self s)"

text \<open>The two pieces of code \<open>handleCommand\<close> hands control to: the subclass's
  \<open>forwardCommand\<close> and the methods of every module the cache can hand out.\<close>

definition delegates_keep_fields ::
  "('v, 'w, 'r) lazy_modules \<Rightarrow> ('v, 'w, 'r) MessageHandlerClass \<Rightarrow> bool" where
  "delegates_keep_fields lz cls =
     ((\<forall>command. keeps_fields (cls_forwardCommand cls command)) \<and>
      (\<forall>r mn d w m c p d'.
          fst (ModuleCache_getModuleInstance lz r mn d w) = Some m
            \<longrightarrow> keeps_fields (invoke m c p d')))"

text \<open>The same, with the subclass's \<open>applyInitialSessionDataItems\<close>.\<close>

definition collaborators_keep_fields ::
  "('v, 'w, 'r) lazy_modules \<Rightarrow> ('v, 'w, 'r) MessageHandlerClass \<Rightarrow> bool" where
  "collaborators_keep_fields lz cls =
     (delegates_keep_fields lz cls \<and>
      (\<forall>items. keeps_fields (cls_applyInitialSessionDataItems cls items)))"

text \<open>How often an event of a given name was emitted.\<close>

definition emissions :: "string \<Rightarrow> ('v, 'w) state \<Rightarrow> nat" where
  "emissions name' s = length (filter (\<lambda>e. fst e = name') (emitted s))"

subsection \<open>Forwarding over a transport that can abort\<close>

text \<open>Modelled from the spec: no subclass of MessageHandler and no transport is under
  src, and the base \<open>forwardCommand\<close> only throws. Section 5 of the spec: a forwarded
  command waits on a round trip to the next hop; the transport either answers with the
  remote result or signals an abort. On an abort the forwarding handler re-resolves the
  next hop and retries exactly once when \<open>retryOnAbort\<close> is true; otherwise, or when
  the retry aborts too, the failure is surfaced as a transport error.\<close>

datatype 'r attempt = Answered "'r promise" | Aborted

record ('hop, 't, 'v, 'r) transport =
  resolveNextHop :: "'v Command \<Rightarrow> 't \<Rightarrow> 'hop"
  sendCommand :: "'hop \<Rightarrow> 'v Command \<Rightarrow> 't \<Rightarrow> 'r attempt \<times> 't"

definition TransportAbortError :: js_error where
  "TransportAbortError = \<lparr>err_name = ''TransportAbortError'', err_message = []\<rparr>"

definition forwardCommand_retryOnAbort ::
  "('hop, 't, 'v, 'r) transport \<Rightarrow> 'v Command \<Rightarrow> 't \<Rightarrow> 'r promise \<times> 't" where
  "forwardCommand_retryOnAbort tr command t =
     (case sendCommand tr (resolveNextHop tr command t) command t of
        (Answered p, t1) \<Rightarrow> (p, t1)
      | (Aborted, t1) \<Rightarrow>
          if (case retryOnAbort command of None \<Rightarrow> False | Some b \<Rightarrow> b)
          then (case sendCommand tr (resolveNextHop tr command t1) command t1 of
                  (Answered p, t2) \<Rightarrow> (p, t2)
                | (Aborted, t2) \<Rightarrow> (Rejected TransportAbortError, t2))
          else (Rejected TransportAbortError, t1))"

subsection \<open>A fixture network\<close>

text \<open>The scenario of the spec's section 8: session \<open>S1\<close>, a Leaf handler for context
  \<open>ctx-42\<close> with a module \<open>nav\<close> whose command \<open>go\<close> answers \<open>{ok:true}\<close>, and a
  Root handler that knows the module's class but has no instance of its own.\<close>

record fx_heap =
  fx_cached :: "string list"
  fx_listening :: bool

definition navClass :: ModuleClass where
  "navClass = \<lparr>static_supportsMethod = (\<lambda>c. c = ''go'')\<rparr>"

definition navModule :: "(string, fx_heap, string promise) Module" where
  "navModule =
     \<lparr>supportsMethod = (\<lambda>c. c = ''go''),
      invoke = (\<lambda>c p d s. (Returned (Resolved ''{ok:true}''), s))\<rparr>"

definition leaf_lazy :: "(string, fx_heap, string promise) lazy_modules" where
  "leaf_lazy =
     \<lparr>ModuleCache_new = (\<lambda>w. (0, w)),
      ModuleCache_getAllModuleClasses = (\<lambda>r m d w. if m = ''nav'' then [navClass] else []),
      ModuleCache_getModuleInstance =
        (\<lambda>r m d w. (if m = ''nav'' then Some navModule else None,
                     w\<lparr>fx_cached := List.insert (m @ ''-'' @ dest_type d) (fx_cached w)\<rparr>)),
      ModuleCache_destroy = (\<lambda>r w. w\<lparr>fx_cached := []\<rparr>),
      EventsDispatcher_new = (\<lambda>w. (1, w)),
      EventsDispatcher_destroy = (\<lambda>r w. w\<lparr>fx_listening := False\<rparr>)\<rparr>"

definition root_lazy :: "(string, fx_heap, string promise) lazy_modules" where
  "root_lazy =
     leaf_lazy\<lparr>ModuleCache_getModuleInstance :=
       (\<lambda>r m d w. (None, w\<lparr>fx_cached := List.insert (m @ ''-'' @ dest_type d) (fx_cached w)\<rparr>))\<rparr>"

definition Leaf_class :: "(string, fx_heap, string promise) MessageHandlerClass" where
  "Leaf_class =
     \<lparr>cls_modulePath = Returned ''leaf'',
      cls_type = Returned ''Leaf'',
      cls_getIdFromContext = (\<lambda>context. Returned context),
      cls_forwardCommand = forwardCommand,
      cls_applyInitialSessionDataItems = applyInitialSessionDataItems\<rparr>"

text \<open>A Root class whose next hop answers that it does not support the command.\<close>

definition Root_class :: "(string, fx_heap, string promise) MessageHandlerClass" where
  "Root_class =
     \<lparr>cls_modulePath = Returned ''root'',
      cls_type = Returned ''Root'',
      cls_getIdFromContext = (\<lambda>context. Returned context),
      cls_forwardCommand =
        (\<lambda>command s.
           (Returned (Rejected (UnsupportedCommandError
              (moduleName command @ ''.'' @ commandName command
                 @ '' not supported for destination '' @ dest_type (destination command)))), s)),
      cls_applyInitialSessionDataItems = applyInitialSessionDataItems\<rparr>"

definition fx_heap0 :: fx_heap where
  "fx_heap0 = \<lparr>fx_cached = [], fx_listening = True\<rparr>"

definition S1_handler :: "(string, fx_heap) state" where
  "S1_handler =
     \<lparr>self = \<lparr>h_moduleCache = 0, h_sessionId = ''S1'', h_context = ''ctx-42'',
              h_contextId = ''ctx-42'', h_eventsDispatcher = 1\<rparr>,
      emitted = [], heap = fx_heap0\<rparr>"

definition Leaf_ctx42 :: CommandDestination where
  "Leaf_ctx42 = \<lparr>dest_type = ''Leaf'', dest_id = Some ''ctx-42'', dest_contextDescriptor = None\<rparr>"

definition nav_go :: "string Command" where
  "nav_go =
     \<lparr>commandName = ''go'', moduleName = ''nav'', params = ''https://example.com'',
      destination = Leaf_ctx42, retryOnAbort = None\<rparr>"

definition nav_stop :: "string Command" where
  "nav_stop = nav_go\<lparr>commandName := ''stop''\<rparr>"

text \<open>A transport whose state counts the round trips made so far: the first one
  aborts, every later one is answered.\<close>

definition flaky_transport :: "(nat, nat, string, string) transport" where
  "flaky_transport =
     \<lparr>resolveNextHop = (\<lambda>command t. t),
      sendCommand = (\<lambda>hop command t.
        (if t = 0 then Aborted else Answered (Resolved ''{ok:true}''), Suc t))\<rparr>"

text \<open>A transport on which every round trip aborts.\<close>

definition dead_transport :: "(nat, nat, string, string) transport" where
  "dead_transport =
     \<lparr>resolveNextHop = (\<lambda>command t. t),
      sendCommand = (\<lambda>hop command t. (Aborted, Suc t))\<rparr>"

section \<open>Properties\<close>

subsection \<open>Auxiliary facts\<close>

lemma supportsCommand_iff:
  "supportsCommand lz s mn cn d =
     (\<exists>cls \<in> set (getAllModuleClasses lz s mn d). static_supportsMethod cls cn)"
  by (simp add: supportsCommand_def list_ex_iff)

lemma handleCommand_unsupported_eq:
  "\<not> supportsCommand lz s (moduleName command) (commandName command) (destination command) \<Longrightarrow>
   handleCommand lz cls command s =
     (Threw (UnsupportedCommandError
        (moduleName command @ ''.'' @ commandName command
           @ '' not supported for destination '' @ dest_type (destination command))), s)"
  by (simp add: handleCommand_def)

lemma handleCommand_supported_eq:
  "supportsCommand lz s (moduleName command) (commandName command) (destination command) \<Longrightarrow>
   handleCommand lz cls command s =
     (case ModuleCache_getModuleInstance lz (h_moduleCache (self s))
                (moduleName command) (destination command) (heap s) of
        (module, w1) \<Rightarrow>
          (case module of
             Some m \<Rightarrow>
               if supportsMethod m (commandName command)
               then invoke m (commandName command) (params command) (destination command)
                      (s\<lparr>heap := w1\<rparr>)
               else cls_forwardCommand cls command (s\<lparr>heap := w1\<rparr>)
           | None \<Rightarrow> cls_forwardCommand cls command (s\<lparr>heap := w1\<rparr>)))"
  by (simp add: handleCommand_def Let_def split: prod.splits)

lemma keeps_fieldsD: "keeps_fields f \<Longrightarrow> self (snd (f s)) = self s"
  by (simp add: keeps_fields_def)

lemma handleCommand_self:
  assumes "delegates_keep_fields lz cls"
  shows "self (snd (handleCommand lz cls command s)) = self s"
proof (cases "supportsCommand lz s (moduleName command) (commandName command) (destination command)")
  case False
  then show ?thesis by (simp add: handleCommand_unsupported_eq)
next
  case True
  obtain module w1 where g: "ModuleCache_getModuleInstance lz (h_moduleCache (self s))
                (moduleName command) (destination command) (heap s) = (module, w1)"
    by (cases "ModuleCache_getModuleInstance lz (h_moduleCache (self s))
                (moduleName command) (destination command) (heap s)")
  from assms have fwd: "\<And>c. keeps_fields (cls_forwardCommand cls c)"
    by (simp add: delegates_keep_fields_def)
  show ?thesis
  proof (cases module)
    case None
    with True g show ?thesis
      by (simp add: handleCommand_supported_eq keeps_fieldsD [OF fwd])
  next
    case (Some m)
    with g have "fst (ModuleCache_getModuleInstance lz (h_moduleCache (self s))
                (moduleName command) (destination command) (heap s)) = Some m" by simp
    with assms have inv: "\<And>c p d'. keeps_fields (invoke m c p d')"
      unfolding delegates_keep_fields_def by blast
    with True g Some show ?thesis
      by (simp add: handleCommand_supported_eq keeps_fieldsD [OF fwd] keeps_fieldsD [OF inv])
  qed
qed

lemma emissions_emit:
  "emissions n (emit n' p s) = (if n' = n then Suc (emissions n s) else emissions n s)"
  by (simp add: emissions_def emit_def)

lemma emissions_heap: "emissions n (s\<lparr>heap := w\<rparr>) = emissions n s"
  by (simp add: emissions_def)

lemma destroy_Returned:
  "cls_type cls = Returned t \<Longrightarrow>
   destroy lz cls s =
     (Returned (),
      emit ''message-handler-destroyed'' (Handler (self s))
        (s\<lparr>heap := ModuleCache_destroy lz (h_moduleCache (self s))
                    (EventsDispatcher_destroy lz (h_eventsDispatcher (self s)) (heap s))\<rparr>))"
  by (simp add: destroy_def Let_def)

lemma perform_self:
  assumes "collaborators_keep_fields lz cls"
  shows "self (perform lz cls op s) = self s"
proof (cases op)
  case (HandleCommand command)
  from assms have "delegates_keep_fields lz cls"
    by (simp add: collaborators_keep_fields_def)
  with HandleCommand show ?thesis by (simp add: handleCommand_self)
next
  case (EmitEvent nm d options)
  then show ?thesis by (simp add: emitEvent_def emit_def Let_def)
next
  case (ApplyInitialSessionDataItems items)
  from assms have "keeps_fields (cls_applyInitialSessionDataItems cls items)"
    by (simp add: collaborators_keep_fields_def)
  with ApplyInitialSessionDataItems show ?thesis by (simp add: keeps_fieldsD)
next
  case Destroy
  then show ?thesis
    by (simp add: destroy_def emit_def Let_def split: completion.splits)
qed

lemma run_self:
  assumes "collaborators_keep_fields lz cls"
  shows "self (run lz cls ops s) = self s"
  by (induction ops arbitrary: s) (simp_all add: perform_self [OF assms])

lemma MessageHandler_new_Inr:
  assumes "MessageHandler_new lz cls sid ctx w = Inr s0"
  shows "cls_getIdFromContext cls ctx = Returned (h_contextId (self s0))
     \<and> h_sessionId (self s0) = sid \<and> h_context (self s0) = ctx \<and> emitted s0 = []"
  using assms
  by (auto simp add: MessageHandler_new_def split: prod.splits completion.splits)

text \<open>Facts about the fixture.\<close>

lemma fx_delegates: "delegates_keep_fields leaf_lazy Leaf_class"
  by (auto simp add: delegates_keep_fields_def keeps_fields_def leaf_lazy_def Leaf_class_def
      forwardCommand_def navModule_def split: if_splits)

lemma fx_collaborators: "collaborators_keep_fields leaf_lazy Leaf_class"
  using fx_delegates
  by (simp add: collaborators_keep_fields_def keeps_fields_def Leaf_class_def
      applyInitialSessionDataItems_def)

lemma fx_leaf_go:
  "supportsCommand leaf_lazy S1_handler (moduleName nav_go) (commandName nav_go) (destination nav_go)"
  by (simp add: supportsCommand_def getAllModuleClasses_def leaf_lazy_def navClass_def nav_go_def)

lemma fx_root_go:
  "supportsCommand root_lazy S1_handler (moduleName nav_go) (commandName nav_go) (destination nav_go)"
  by (simp add: supportsCommand_def getAllModuleClasses_def root_lazy_def leaf_lazy_def
      navClass_def nav_go_def)

lemma fx_leaf_stop:
  "\<not> supportsCommand leaf_lazy S1_handler (moduleName nav_stop) (commandName nav_stop)
        (destination nav_stop)"
  by (simp add: supportsCommand_def getAllModuleClasses_def leaf_lazy_def navClass_def
      nav_stop_def nav_go_def)

subsection \<open>Command dispatch\<close>

text \<open>
  C1. When at least one module class resolved for the command's module name and
  destination declares support for the command name, \<open>handleCommand\<close> does exactly one
  of two things, decided by the module instance the cache hands out: if there is an
  instance and it supports the method, the result (value or error, and the state left
  behind) is that of \<open>module[commandName](params, destination)\<close>; in every other case
  it is that of \<open>forwardCommand(command)\<close>.
\<close>

theorem handleCommand_local_or_forward:
  assumes "\<exists>cls \<in> set (getAllModuleClasses lz s (moduleName command) (destination command)).
             static_supportsMethod cls (commandName command)"
    and "ModuleCache_getModuleInstance lz (h_moduleCache (self s)) (moduleName command)
           (destination command) (heap s) = (module, w1)"
  shows "(\<forall>m. module = Some m \<and> supportsMethod m (commandName command) \<longrightarrow>
            handleCommand lz cls command s =
              invoke m (commandName command) (params command) (destination command)
                (s\<lparr>heap := w1\<rparr>))
       \<and> ((\<forall>m. module = Some m \<longrightarrow> \<not> supportsMethod m (commandName command)) \<longrightarrow>
            handleCommand lz cls command s = cls_forwardCommand cls command (s\<lparr>heap := w1\<rparr>))"
proof -
  from assms(1)
  have sup: "supportsCommand lz s (moduleName command) (commandName command) (destination command)"
    by (simp add: supportsCommand_iff)
  show ?thesis
  proof (cases module)
    case None
    with sup assms(2) show ?thesis by (simp add: handleCommand_def)
  next
    case (Some m)
    with sup assms(2) show ?thesis by (simp add: handleCommand_def)
  qed
qed

text \<open>On the fixture: the Leaf handler runs \<open>nav.go\<close> in its own module and answers
  \<open>{ok:true}\<close>; a handler whose cache has no instance forwards, and with the base
  \<open>forwardCommand\<close> that throws.\<close>

theorem handleCommand_local_or_forward_witness:
  "handleCommand leaf_lazy Leaf_class nav_go S1_handler =
     (Returned (Resolved ''{ok:true}''),
      S1_handler\<lparr>heap := \<lparr>fx_cached = [''nav-Leaf''], fx_listening = True\<rparr>\<rparr>)
   \<and> handleCommand root_lazy Leaf_class nav_go S1_handler =
     (Threw (Error ''Not implemented''),
      S1_handler\<lparr>heap := \<lparr>fx_cached = [''nav-Leaf''], fx_listening = True\<rparr>\<rparr>)"
proof -
  let ?w = "\<lparr>fx_cached = [''nav-Leaf''], fx_listening = True\<rparr>"
  have sup: "\<exists>cls \<in> set (getAllModuleClasses leaf_lazy S1_handler (moduleName nav_go)
               (destination nav_go)). static_supportsMethod cls (commandName nav_go)"
    using fx_leaf_go by (simp add: supportsCommand_iff)
  have sup': "\<exists>cls \<in> set (getAllModuleClasses root_lazy S1_handler (moduleName nav_go)
               (destination nav_go)). static_supportsMethod cls (commandName nav_go)"
    using fx_root_go by (simp add: supportsCommand_iff)
  have inst: "ModuleCache_getModuleInstance leaf_lazy (h_moduleCache (self S1_handler))
      (moduleName nav_go) (destination nav_go) (heap S1_handler) = (Some navModule, ?w)"
    by (simp add: leaf_lazy_def nav_go_def S1_handler_def Leaf_ctx42_def fx_heap0_def)
  have inst': "ModuleCache_getModuleInstance root_lazy (h_moduleCache (self S1_handler))
      (moduleName nav_go) (destination nav_go) (heap S1_handler) = (None, ?w)"
    by (simp add: root_lazy_def leaf_lazy_def nav_go_def S1_handler_def Leaf_ctx42_def
        fx_heap0_def)
  have a: "handleCommand leaf_lazy Leaf_class nav_go S1_handler =
      invoke navModule (commandName nav_go) (params nav_go) (destination nav_go)
        (S1_handler\<lparr>heap := ?w\<rparr>)"
    using handleCommand_local_or_forward [OF sup inst, of Leaf_class]
    by (simp add: navModule_def nav_go_def)
  have b: "handleCommand root_lazy Leaf_class nav_go S1_handler =
      cls_forwardCommand Leaf_class nav_go (S1_handler\<lparr>heap := ?w\<rparr>)"
    using handleCommand_local_or_forward [OF sup' inst', of Leaf_class]
    by simp
  have c: "invoke navModule (commandName nav_go) (params nav_go) (destination nav_go)
      (S1_handler\<lparr>heap := ?w\<rparr>) = (Returned (Resolved ''{ok:true}''), S1_handler\<lparr>heap := ?w\<rparr>)"
    by (simp add: navModule_def)
  have d: "cls_forwardCommand Leaf_class nav_go (S1_handler\<lparr>heap := ?w\<rparr>) =
      (Threw (Error ''Not implemented''), S1_handler\<lparr>heap := ?w\<rparr>)"
    by (simp add: Leaf_class_def forwardCommand_def)
  from a b c d show ?thesis by simp
qed

text \<open>
  C2 (as amended). \<open>supportsCommand\<close> is true exactly when at least one class returned
  by \<open>getAllModuleClasses\<close> supports the command name. When it is false,
  \<open>handleCommand\<close> throws an \<open>UnsupportedCommandError\<close> whose message names the
  module, the command and the destination's type, and the state is untouched. When it
  is true, \<open>handleCommand\<close> raises no error of its own: its result is exactly that of
  the delegate it runs, the module method or \<open>forwardCommand\<close>. So
  \<open>handleCommand\<close> fails with an \<open>UnsupportedCommandError\<close> if and only if
  \<open>supportsCommand\<close> is false or the delegate of this call fails with one; for a call
  whose delegate does not, it fails with that error if and only if \<open>supportsCommand\<close>
  is false.
\<close>

theorem handleCommand_unsupported_iff:
  fixes lz :: "('v, 'w, 'a promise) lazy_modules"
  shows
   "let supported =
          supportsCommand lz s (moduleName command) (commandName command) (destination command);
        delegate =
          (case ModuleCache_getModuleInstance lz (h_moduleCache (self s))
                  (moduleName command) (destination command) (heap s) of
             (module, w1) \<Rightarrow>
               (case module of
                  Some m \<Rightarrow>
                    if supportsMethod m (commandName command)
                    then invoke m (commandName command) (params command) (destination command)
                           (s\<lparr>heap := w1\<rparr>)
                    else cls_forwardCommand cls command (s\<lparr>heap := w1\<rparr>)
                | None \<Rightarrow> cls_forwardCommand cls command (s\<lparr>heap := w1\<rparr>)))
    in (supported \<longleftrightarrow>
          (\<exists>c \<in> set (getAllModuleClasses lz s (moduleName command) (destination command)).
              static_supportsMethod c (commandName command)))
     \<and> (\<not> supported \<longrightarrow>
          handleCommand lz cls command s =
            (Threw (UnsupportedCommandError
               (moduleName command @ ''.'' @ commandName command
                  @ '' not supported for destination '' @ dest_type (destination command))), s))
     \<and> (supported \<longrightarrow> handleCommand lz cls command s = delegate)
     \<and> (fails_with ''UnsupportedCommandError'' (fst (handleCommand lz cls command s)) \<longleftrightarrow>
          (\<not> supported \<or> fails_with ''UnsupportedCommandError'' (fst delegate)))
     \<and> (\<not> fails_with ''UnsupportedCommandError'' (fst delegate) \<longrightarrow>
          (fails_with ''UnsupportedCommandError'' (fst (handleCommand lz cls command s)) \<longleftrightarrow>
             \<not> supported))"
proof (cases "supportsCommand lz s (moduleName command) (commandName command) (destination command)")
  case False
  then show ?thesis
    by (simp add: Let_def handleCommand_unsupported_eq supportsCommand_iff [symmetric]
        fails_with_def failure_def UnsupportedCommandError_def)
next
  case True
  then show ?thesis
    by (simp add: Let_def handleCommand_supported_eq supportsCommand_iff [symmetric])
qed

text \<open>On the fixture: on the Leaf handler \<open>nav.stop\<close> is unsupported and fails with
  the error, \<open>nav.go\<close> is supported and does not; on the Root handler \<open>nav.go\<close> is
  supported and fails with the error its delegate fails with.\<close>

theorem handleCommand_unsupported_iff_witness:
  "fails_with ''UnsupportedCommandError'' (fst (handleCommand leaf_lazy Leaf_class nav_stop S1_handler))
   \<and> \<not> supportsCommand leaf_lazy S1_handler ''nav'' ''stop'' Leaf_ctx42
   \<and> \<not> fails_with ''UnsupportedCommandError'' (fst (handleCommand leaf_lazy Leaf_class nav_go S1_handler))
   \<and> supportsCommand leaf_lazy S1_handler ''nav'' ''go'' Leaf_ctx42
   \<and> fails_with ''UnsupportedCommandError'' (fst (handleCommand root_lazy Root_class nav_go S1_handler))
   \<and> supportsCommand root_lazy S1_handler ''nav'' ''go'' Leaf_ctx42"
proof -
  have fields: "moduleName nav_stop = ''nav''" "commandName nav_stop = ''stop''"
    "destination nav_stop = Leaf_ctx42" "moduleName nav_go = ''nav''" "commandName nav_go = ''go''"
    "destination nav_go = Leaf_ctx42"
    by (simp_all add: nav_stop_def nav_go_def)
  have leaf_go: "\<not> fails_with ''UnsupportedCommandError''
      (fst (case ModuleCache_getModuleInstance leaf_lazy (h_moduleCache (self S1_handler))
                  (moduleName nav_go) (destination nav_go) (heap S1_handler) of
             (module, w1) \<Rightarrow>
               (case module of
                  Some m \<Rightarrow>
                    if supportsMethod m (commandName nav_go)
                    then invoke m (commandName nav_go) (params nav_go) (destination nav_go)
                           (S1_handler\<lparr>heap := w1\<rparr>)
                    else cls_forwardCommand Leaf_class nav_go (S1_handler\<lparr>heap := w1\<rparr>)
                | None \<Rightarrow> cls_forwardCommand Leaf_class nav_go (S1_handler\<lparr>heap := w1\<rparr>))))"
    by (simp add: leaf_lazy_def navModule_def nav_go_def fails_with_def failure_def)
  have root_go: "fails_with ''UnsupportedCommandError''
      (fst (case ModuleCache_getModuleInstance root_lazy (h_moduleCache (self S1_handler))
                  (moduleName nav_go) (destination nav_go) (heap S1_handler) of
             (module, w1) \<Rightarrow>
               (case module of
                  Some m \<Rightarrow>
                    if supportsMethod m (commandName nav_go)
                    then invoke m (commandName nav_go) (params nav_go) (destination nav_go)
                           (S1_handler\<lparr>heap := w1\<rparr>)
                    else cls_forwardCommand Root_class nav_go (S1_handler\<lparr>heap := w1\<rparr>)
                | None \<Rightarrow> cls_forwardCommand Root_class nav_go (S1_handler\<lparr>heap := w1\<rparr>))))"
    by (simp add: root_lazy_def leaf_lazy_def Root_class_def fails_with_def failure_def
        UnsupportedCommandError_def)
  have a: "fails_with ''UnsupportedCommandError''
      (fst (handleCommand leaf_lazy Leaf_class nav_stop S1_handler))"
    using handleCommand_unsupported_iff [of leaf_lazy S1_handler nav_stop Leaf_class] fx_leaf_stop
    by (simp add: Let_def fails_with_def failure_def UnsupportedCommandError_def)
  have b: "\<not> fails_with ''UnsupportedCommandError''
      (fst (handleCommand leaf_lazy Leaf_class nav_go S1_handler))"
    using handleCommand_unsupported_iff [of leaf_lazy S1_handler nav_go Leaf_class] fx_leaf_go leaf_go
    by (simp add: Let_def)
  have c: "fails_with ''UnsupportedCommandError''
      (fst (handleCommand root_lazy Root_class nav_go S1_handler))"
    using handleCommand_unsupported_iff [of root_lazy S1_handler nav_go Root_class] fx_root_go root_go
    by (simp add: Let_def)
  from fx_leaf_stop fx_leaf_go fx_root_go
  have d: "\<not> supportsCommand leaf_lazy S1_handler ''nav'' ''stop'' Leaf_ctx42"
    "supportsCommand leaf_lazy S1_handler ''nav'' ''go'' Leaf_ctx42"
    "supportsCommand root_lazy S1_handler ''nav'' ''go'' Leaf_ctx42"
    by (simp_all add: fields)
  from a b c d show ?thesis by (intro conjI)
qed

text \<open>C2 as stated fails: on the Root handler of the fixture some resolved class supports
  \<open>nav.go\<close>, the command is forwarded, the next hop answers that it does not support
  it, and \<open>handleCommand\<close> hands that \<open>UnsupportedCommandError\<close> (same module,
  command and destination) to its caller although \<open>supportsCommand\<close> is true.\<close>

theorem handleCommand_unsupported_counterexample:
  "supportsCommand root_lazy S1_handler (moduleName nav_go) (commandName nav_go) (destination nav_go)
   \<and> fst (handleCommand root_lazy Root_class nav_go S1_handler) =
       Returned (Rejected (UnsupportedCommandError ''nav.go not supported for destination Leaf''))"
  by (simp add: handleCommand_def supportsCommand_def getAllModuleClasses_def root_lazy_def
      leaf_lazy_def Root_class_def nav_go_def navClass_def S1_handler_def Leaf_ctx42_def)

text \<open>
  C4 (as amended). \<open>handleCommand\<close> and the base \<open>forwardCommand\<close> are ordinary
  methods, not asynchronous ones. An unsupported command makes \<open>handleCommand\<close> throw
  synchronously; the base \<open>forwardCommand\<close> throws synchronously; and for a supported
  command \<open>handleCommand\<close> yields, unchanged, whatever the module method or
  \<open>forwardCommand\<close> yields: their promise when they return one, their exception when
  they throw. No failure is swallowed or converted.
\<close>

theorem handleCommand_propagates:
  fixes lz :: "('v, 'w, 'r) lazy_modules"
  shows "(\<not> supportsCommand lz s (moduleName command) (commandName command) (destination command) \<longrightarrow>
      handleCommand lz cls command s =
        (Threw (UnsupportedCommandError
           (moduleName command @ ''.'' @ commandName command
              @ '' not supported for destination '' @ dest_type (destination command))), s))
   \<and> (supportsCommand lz s (moduleName command) (commandName command) (destination command) \<longrightarrow>
      handleCommand lz cls command s =
        (case ModuleCache_getModuleInstance lz (h_moduleCache (self s))
                (moduleName command) (destination command) (heap s) of
           (module, w1) \<Rightarrow>
             (case module of
                Some m \<Rightarrow>
                  if supportsMethod m (commandName command)
                  then invoke m (commandName command) (params command) (destination command)
                         (s\<lparr>heap := w1\<rparr>)
                  else cls_forwardCommand cls command (s\<lparr>heap := w1\<rparr>)
              | None \<Rightarrow> cls_forwardCommand cls command (s\<lparr>heap := w1\<rparr>))))
   \<and> (forwardCommand command s :: 'r completion \<times> ('v, 'w) state)
        = (Threw (Error ''Not implemented''), s)"
  using handleCommand_unsupported_eq [of lz s command cls]
    handleCommand_supported_eq [of lz s command cls]
  by (simp add: forwardCommand_def)

text \<open>On the fixture: the unsupported \<open>nav.stop\<close> is thrown at the caller, and the
  rejection the Root handler's next hop answers with is returned as it is.\<close>

theorem handleCommand_propagates_witness:
  "handleCommand leaf_lazy Leaf_class nav_stop S1_handler =
     (Threw (UnsupportedCommandError ''nav.stop not supported for destination Leaf''), S1_handler)
   \<and> fst (handleCommand root_lazy Root_class nav_go S1_handler) =
     Returned (Rejected (UnsupportedCommandError ''nav.go not supported for destination Leaf''))"
proof -
  have a: "handleCommand leaf_lazy Leaf_class nav_stop S1_handler =
     (Threw (UnsupportedCommandError ''nav.stop not supported for destination Leaf''), S1_handler)"
    using handleCommand_propagates [of leaf_lazy S1_handler nav_stop Leaf_class] fx_leaf_stop
    by (simp add: nav_stop_def nav_go_def Leaf_ctx42_def)
  have b: "fst (handleCommand root_lazy Root_class nav_go S1_handler) =
     Returned (Rejected (UnsupportedCommandError ''nav.go not supported for destination Leaf''))"
    using handleCommand_propagates [of root_lazy S1_handler nav_go Root_class] fx_root_go
    by (simp add: root_lazy_def leaf_lazy_def Root_class_def nav_go_def Leaf_ctx42_def)
  from a b show ?thesis by simp
qed

text \<open>C4 as stated fails: the unsupported command and the base \<open>forwardCommand\<close> both
  end in a synchronous exception (\<open>Threw\<close>), not in a returned promise that rejects.\<close>

theorem handleCommand_throws_counterexample:
  "fst (handleCommand leaf_lazy Leaf_class nav_stop S1_handler) =
     Threw (UnsupportedCommandError ''nav.stop not supported for destination Leaf'')
   \<and> fst (cls_forwardCommand Leaf_class nav_go S1_handler) = Threw (Error ''Not implemented'')"
  by (simp add: handleCommand_def supportsCommand_def getAllModuleClasses_def leaf_lazy_def
      Leaf_class_def nav_stop_def nav_go_def navClass_def Leaf_ctx42_def forwardCommand_def)

text \<open>
  C6 (as amended). The base \<open>forwardCommand\<close> fails for every command, whatever its
  \<open>retryOnAbort\<close> flag, by throwing the generic \<open>Error\<close> with the message
  \<open>Not implemented\<close>; it never returns a value and leaves the state as it was.
\<close>

theorem forwardCommand_not_implemented:
  "forwardCommand command s = (Threw (Error ''Not implemented''), s)
   \<and> cls_forwardCommand MessageHandler_class = forwardCommand
   \<and> (\<nexists>r. fst (forwardCommand command s) = Returned r)"
  by (simp add: forwardCommand_def MessageHandler_class_def)

text \<open>C6 as stated fails: the error the base \<open>forwardCommand\<close> throws is named
  \<open>Error\<close>, not \<open>DestinationUnreachableError\<close>.\<close>

theorem forwardCommand_counterexample:
  "fst (cls_forwardCommand
          (MessageHandler_class :: (string, fx_heap, string promise) MessageHandlerClass)
          nav_go S1_handler) = Threw (Error ''Not implemented'')
   \<and> err_name (Error ''Not implemented'') = ''Error''
   \<and> err_name (Error ''Not implemented'') \<noteq> ''DestinationUnreachableError''"
  by (simp add: MessageHandler_class_def forwardCommand_def Error_def)

text \<open>
  C7. Provided the code \<open>handleCommand\<close> hands control to (a module's method, the
  subclass's \<open>forwardCommand\<close>) does not assign the handler's private fields,
  \<open>handleCommand\<close> leaves all of them as they were on every path: the session id, the
  context, the context id and the references to the module cache and the events
  dispatcher. On the unsupported path nothing at all changes.
\<close>

theorem handleCommand_frame:
  assumes "delegates_keep_fields lz cls"
  shows "self (snd (handleCommand lz cls command s)) = self s
     \<and> sessionId (snd (handleCommand lz cls command s)) = sessionId s
     \<and> contextId (snd (handleCommand lz cls command s)) = contextId s
     \<and> (\<not> supportsCommand lz s (moduleName command) (commandName command) (destination command)
          \<longrightarrow> snd (handleCommand lz cls command s) = s)"
  using handleCommand_self [OF assms, of command s]
  by (simp add: sessionId_def contextId_def handleCommand_unsupported_eq)

text \<open>On the fixture, for the supported \<open>nav.go\<close> and the unsupported \<open>nav.stop\<close>.\<close>

theorem handleCommand_frame_witness:
  "delegates_keep_fields leaf_lazy Leaf_class
   \<and> self (snd (handleCommand leaf_lazy Leaf_class nav_go S1_handler)) = self S1_handler
   \<and> snd (handleCommand leaf_lazy Leaf_class nav_stop S1_handler) = S1_handler"
  using handleCommand_frame [OF fx_delegates, of nav_go S1_handler]
    handleCommand_frame [OF fx_delegates, of nav_stop S1_handler] fx_leaf_stop fx_delegates
  by simp

subsection \<open>Events and destruction\<close>

text \<open>
  C3 (as amended). \<open>emitEvent(name, data, options)\<close> always returns normally. It
  emits exactly one \<open>message-handler-event\<close> envelope, made of the name, the data, the
  protocol flag and the emitting handler's own session id, where the flag is false when
  the options or the flag are omitted; and right after it, it emits the data under the
  bare name if and only if the event is not a protocol event. Nothing else changes. The
  number of events emitted under the name \<open>message-handler-event\<close> therefore grows by
  one, except for an event that is not a protocol event and is itself named
  \<open>message-handler-event\<close>, where it grows by two.
\<close>

theorem emitEvent_emissions:
  "emitEvent nm d options s =
     (Returned (),
      s\<lparr>emitted := emitted s
          @ (''message-handler-event'',
               Envelope nm d (options_isProtocolEvent options) (h_sessionId (self s)))
          # (if options_isProtocolEvent options then [] else [(nm, Data d)])\<rparr>)
   \<and> options_isProtocolEvent None = False
   \<and> options_isProtocolEvent (Some \<lparr>isProtocolEvent = None\<rparr>) = False
   \<and> options_isProtocolEvent (Some \<lparr>isProtocolEvent = Some b\<rparr>) = b
   \<and> emissions ''message-handler-event'' (snd (emitEvent nm d options s)) =
       emissions ''message-handler-event'' s
         + (if \<not> options_isProtocolEvent options \<and> nm = ''message-handler-event'' then 2 else 1)"
  by (simp add: emitEvent_def emit_def options_isProtocolEvent_def sessionId_def Let_def
      emissions_def)

text \<open>C3 as stated fails: an internal event that is itself named
  \<open>message-handler-event\<close> is emitted twice under that name, first as the envelope and
  then as the bare data.\<close>

theorem emitEvent_counterexample:
  "fst (emitEvent ''message-handler-event'' ''x'' None S1_handler) = Returned ()
   \<and> emissions ''message-handler-event'' S1_handler = 0
   \<and> emissions ''message-handler-event''
        (snd (emitEvent ''message-handler-event'' ''x'' None S1_handler)) = 2
   \<and> emitted (snd (emitEvent ''message-handler-event'' ''x'' None S1_handler)) =
        [(''message-handler-event'', Envelope ''message-handler-event'' ''x'' False ''S1''),
         (''message-handler-event'', Data ''x'')]"
  by (simp add: emitEvent_def emit_def options_isProtocolEvent_def sessionId_def Let_def
      emissions_def S1_handler_def)

text \<open>
  C5 (as amended). \<open>destroy()\<close> is not idempotent. On a handler whose class implements
  the static \<open>type\<close>, calling \<open>destroy()\<close> twice in succession produces no error and
  emits \<open>message-handler-destroyed\<close> twice in total, once per call. In full, a call
  returns normally and leaves the state in which the events dispatcher and then the
  module cache have been destroyed, the notification (carrying the handler) has been
  appended to the emitted events, and the handler's fields are as before.
\<close>

theorem destroy_emits_each_time:
  assumes "cls_type cls = Returned t"
  shows "destroy lz cls s =
       (Returned (),
        s\<lparr>heap := ModuleCache_destroy lz (h_moduleCache (self s))
                    (EventsDispatcher_destroy lz (h_eventsDispatcher (self s)) (heap s)),
          emitted := emitted s @ [(''message-handler-destroyed'', Handler (self s))]\<rparr>)
     \<and> fst (destroy lz cls s) = Returned ()
     \<and> emissions ''message-handler-destroyed'' (snd (destroy lz cls s))
         = emissions ''message-handler-destroyed'' s + 1
     \<and> fst (destroy lz cls (snd (destroy lz cls s))) = Returned ()
     \<and> emissions ''message-handler-destroyed'' (snd (destroy lz cls (snd (destroy lz cls s))))
         = emissions ''message-handler-destroyed'' s + 2"
proof -
  have eq: "destroy lz cls s =
       (Returned (),
        s\<lparr>heap := ModuleCache_destroy lz (h_moduleCache (self s))
                    (EventsDispatcher_destroy lz (h_eventsDispatcher (self s)) (heap s)),
          emitted := emitted s @ [(''message-handler-destroyed'', Handler (self s))]\<rparr>)"
    by (simp add: destroy_Returned [OF assms] emit_def)
  have once: "fst (destroy lz cls s) = Returned ()"
    "emissions ''message-handler-destroyed'' (snd (destroy lz cls s))
       = emissions ''message-handler-destroyed'' s + 1"
    by (simp_all add: destroy_Returned [OF assms] emissions_emit emissions_heap)
  have twice: "fst (destroy lz cls (snd (destroy lz cls s))) = Returned ()"
    "emissions ''message-handler-destroyed'' (snd (destroy lz cls (snd (destroy lz cls s))))
       = emissions ''message-handler-destroyed'' s + 2"
    by (simp_all add: destroy_Returned [OF assms] emissions_emit emissions_heap)
  from eq once twice show ?thesis by (intro conjI)
qed

text \<open>On the Leaf handler of the fixture, which has emitted nothing yet.\<close>

theorem destroy_emits_each_time_witness:
  "destroy leaf_lazy Leaf_class S1_handler =
     (Returned (),
      S1_handler\<lparr>heap := \<lparr>fx_cached = [], fx_listening = False\<rparr>,
        emitted := [(''message-handler-destroyed'', Handler (self S1_handler))]\<rparr>)
   \<and> emissions ''message-handler-destroyed'' (snd (destroy leaf_lazy Leaf_class S1_handler)) = 1"
proof -
  have t: "cls_type Leaf_class = Returned ''Leaf''" by (simp add: Leaf_class_def)
  have z: "emissions ''message-handler-destroyed'' S1_handler = 0"
    by (simp add: emissions_def S1_handler_def)
  have h: "ModuleCache_destroy leaf_lazy (h_moduleCache (self S1_handler))
      (EventsDispatcher_destroy leaf_lazy (h_eventsDispatcher (self S1_handler)) (heap S1_handler))
      = \<lparr>fx_cached = [], fx_listening = False\<rparr>" "emitted S1_handler = []"
    by (simp_all add: leaf_lazy_def S1_handler_def fx_heap0_def)
  note th = destroy_emits_each_time [OF t, of leaf_lazy S1_handler]
  from th [THEN conjunct1] h
  have a: "destroy leaf_lazy Leaf_class S1_handler =
     (Returned (),
      S1_handler\<lparr>heap := \<lparr>fx_cached = [], fx_listening = False\<rparr>,
        emitted := [(''message-handler-destroyed'', Handler (self S1_handler))]\<rparr>)"
    by simp
  from th [THEN conjunct2, THEN conjunct2, THEN conjunct1] z
  have b: "emissions ''message-handler-destroyed''
      (snd (destroy leaf_lazy Leaf_class S1_handler)) = 1"
    by simp
  from a b show ?thesis by (intro conjI)
qed

text \<open>C5 as stated fails: two calls of \<open>destroy()\<close> on the Leaf handler both return
  normally, and the notification has then been emitted twice, not once.\<close>

theorem destroy_twice_counterexample:
  "fst (destroy leaf_lazy Leaf_class S1_handler) = Returned ()
   \<and> fst (destroy leaf_lazy Leaf_class (snd (destroy leaf_lazy Leaf_class S1_handler))) = Returned ()
   \<and> emissions ''message-handler-destroyed''
       (snd (destroy leaf_lazy Leaf_class (snd (destroy leaf_lazy Leaf_class S1_handler)))) = 2"
proof -
  have t: "cls_type Leaf_class = Returned ''Leaf''" by (simp add: Leaf_class_def)
  have "emissions ''message-handler-destroyed'' S1_handler = 0"
    by (simp add: emissions_def S1_handler_def)
  then show ?thesis
    by (simp add: destroy_Returned [OF t] emissions_emit emissions_heap)
qed

subsection \<open>Identity\<close>

text \<open>
  C10. For a handler that was constructed from a session id and a context, the context
  id is what the class's static \<open>getIdFromContext\<close> returned for that context, and
  after any sequence of \<open>handleCommand\<close>, \<open>emitEvent\<close>,
  \<open>applyInitialSessionDataItems\<close> and \<open>destroy\<close> calls the accessors still give the
  session id and the context id of construction, so that \<open>name\<close> is the session id,
  the class's static type and the context id joined with a dash. The code those
  operations hand control to is taken not to assign the handler's private fields, and
  the class to implement \<open>type\<close>.
\<close>

theorem identity_fixed:
  assumes new: "MessageHandler_new lz cls sid ctx w = Inr s0"
    and keep: "collaborators_keep_fields lz cls"
    and type: "cls_type cls = Returned t"
  shows "\<exists>cid. cls_getIdFromContext cls ctx = Returned cid
           \<and> sessionId (run lz cls ops s0) = sid
           \<and> contextId (run lz cls ops s0) = cid
           \<and> name cls (run lz cls ops s0) = Returned (sid @ ''-'' @ t @ ''-'' @ cid)"
  using MessageHandler_new_Inr [OF new] type
  by (simp add: sessionId_def contextId_def name_def run_self [OF keep])

text \<open>The Leaf handler of the fixture is what the constructor builds for session
  \<open>S1\<close> and context \<open>ctx-42\<close>; after one call of each operation its name is still
  \<open>S1-Leaf-ctx-42\<close>.\<close>

theorem identity_fixed_witness:
  "MessageHandler_new leaf_lazy Leaf_class ''S1'' ''ctx-42'' fx_heap0 = Inr S1_handler
   \<and> name Leaf_class
       (run leaf_lazy Leaf_class
          [HandleCommand nav_go, EmitEvent ''nav.navigated'' ''https://example.com'' None,
           ApplyInitialSessionDataItems [], Destroy] S1_handler)
     = Returned ''S1-Leaf-ctx-42''"
proof -
  have new: "MessageHandler_new leaf_lazy Leaf_class ''S1'' ''ctx-42'' fx_heap0 = Inr S1_handler"
    by (simp add: MessageHandler_new_def leaf_lazy_def Leaf_class_def S1_handler_def)
  have type: "cls_type Leaf_class = Returned ''Leaf''" by (simp add: Leaf_class_def)
  have id: "cls_getIdFromContext Leaf_class ''ctx-42'' = Returned ''ctx-42''"
    by (simp add: Leaf_class_def)
  from identity_fixed [OF new fx_collaborators type,
      of "[HandleCommand nav_go, EmitEvent ''nav.navigated'' ''https://example.com'' None,
           ApplyInitialSessionDataItems [], Destroy]"] id new
  show ?thesis by simp
qed

subsection \<open>ContextDescriptor\<close>

text \<open>
  C9 (as amended). A ContextDescriptor is a tagged union with exactly two variants: its
  type is \<open>All\<close> or \<open>TopBrowsingContext\<close>, the two values of
  \<open>ContextDescriptorType\<close>. A descriptor of type \<open>All\<close> matches every context. A
  descriptor of type \<open>TopBrowsingContext\<close> carries a string id and matches exactly one
  concrete context, the one identified by that id.
\<close>

theorem ContextDescriptor_variants:
  assumes "ContextDescriptor_valid d"
  shows "((cd_type d = All \<and> (\<forall>c. matchContext d c))
          \<or> (cd_type d = TopBrowsingContext
               \<and> (\<exists>i. cd_id d = Some i \<and> (\<forall>c. matchContext d c \<longleftrightarrow> c = i))
               \<and> (\<exists>!c. matchContext d c)))
       \<and> (UNIV :: ContextDescriptorType set) = {All, TopBrowsingContext}
       \<and> All \<noteq> TopBrowsingContext
       \<and> map ContextDescriptorType_value [All, TopBrowsingContext] = [''All'', ''TopBrowsingContext'']"
proof -
  have ex: "\<And>t. t = All \<or> t = TopBrowsingContext"
    subgoal for t by (cases t) simp_all
    done
  then have univ: "(UNIV :: ContextDescriptorType set) = {All, TopBrowsingContext}" by auto
  have main: "(cd_type d = All \<and> (\<forall>c. matchContext d c))
          \<or> (cd_type d = TopBrowsingContext
               \<and> (\<exists>i. cd_id d = Some i \<and> (\<forall>c. matchContext d c \<longleftrightarrow> c = i))
               \<and> (\<exists>!c. matchContext d c))"
  proof (cases "cd_type d")
    case All
    then show ?thesis by (simp add: matchContext_def)
  next
    case TopBrowsingContext
    with assms obtain i where i: "cd_id d = Some i"
      by (auto simp add: ContextDescriptor_valid_def)
    with TopBrowsingContext have m: "\<And>c. matchContext d c \<longleftrightarrow> c = i"
      by (auto simp add: matchContext_def)
    then have "\<exists>!c. matchContext d c" by auto
    with TopBrowsingContext i m show ?thesis by simp
  qed
  from main univ show ?thesis by simp
qed

text \<open>A descriptor for the context \<open>ctx-42\<close> matches that context and not
  \<open>ctx-43\<close>; the descriptor of type \<open>All\<close> matches \<open>ctx-43\<close> too.\<close>

theorem ContextDescriptor_variants_witness:
  "ContextDescriptor_valid \<lparr>cd_type = TopBrowsingContext, cd_id = Some ''ctx-42''\<rparr>
   \<and> matchContext \<lparr>cd_type = TopBrowsingContext, cd_id = Some ''ctx-42''\<rparr> ''ctx-42''
   \<and> \<not> matchContext \<lparr>cd_type = TopBrowsingContext, cd_id = Some ''ctx-42''\<rparr> ''ctx-43''
   \<and> ContextDescriptor_valid \<lparr>cd_type = All, cd_id = None\<rparr>
   \<and> matchContext \<lparr>cd_type = All, cd_id = None\<rparr> ''ctx-43''"
proof -
  let ?d = "\<lparr>cd_type = TopBrowsingContext, cd_id = Some ''ctx-42''\<rparr>"
  let ?a = "\<lparr>cd_type = All, cd_id = None\<rparr>"
  have v: "ContextDescriptor_valid ?d" by (simp add: ContextDescriptor_valid_def)
  have va: "ContextDescriptor_valid ?a" by (simp add: ContextDescriptor_valid_def)
  from ContextDescriptor_variants [OF v]
  have "\<forall>c. matchContext ?d c \<longleftrightarrow> c = ''ctx-42''" by simp
  then have m: "matchContext ?d ''ctx-42''" "\<not> matchContext ?d ''ctx-43''" by simp_all
  from ContextDescriptor_variants [OF va]
  have "matchContext ?a ''ctx-43''" by simp
  with v va m show ?thesis by simp
qed

text \<open>C9 as stated fails: no value of the enum is called \<open>SpecificContext\<close>.\<close>

theorem ContextDescriptorType_counterexample:
  "\<not> (\<exists>t. ContextDescriptorType_value t = ''SpecificContext'')"
proof
  assume "\<exists>t. ContextDescriptorType_value t = ''SpecificContext''"
  then obtain t where "ContextDescriptorType_value t = ''SpecificContext''" ..
  then show False by (cases t) simp_all
qed

subsection \<open>Retry on abort\<close>

text \<open>
  C8. When the first round trip of a forwarded command aborts: with \<open>retryOnAbort\<close>
  true the next hop is resolved again and the command is sent exactly once more, and the
  answer of that second round trip is the result; if the second round trip aborts too,
  or \<open>retryOnAbort\<close> is false or absent, the caller gets a transport error, after two
  round trips and after one respectively.
\<close>

theorem retryOnAbort_once:
  assumes first: "sendCommand tr (resolveNextHop tr command t) command t = (Aborted, t1)"
  shows "(retryOnAbort command = Some True \<and>
            sendCommand tr (resolveNextHop tr command t1) command t1 = (Answered p, t2)
            \<longrightarrow> forwardCommand_retryOnAbort tr command t = (p, t2))
     \<and> (retryOnAbort command = Some True \<and>
            sendCommand tr (resolveNextHop tr command t1) command t1 = (Aborted, t2)
            \<longrightarrow> forwardCommand_retryOnAbort tr command t = (Rejected TransportAbortError, t2))
     \<and> (retryOnAbort command \<noteq> Some True
            \<longrightarrow> forwardCommand_retryOnAbort tr command t = (Rejected TransportAbortError, t1))"
  using first by (auto simp add: forwardCommand_retryOnAbort_def split: option.splits)

text \<open>On a transport whose first round trip aborts: with the flag the command succeeds
  after two round trips, without it the command fails after one; on a transport that
  always aborts the command fails after two.\<close>

theorem retryOnAbort_once_witness:
  "forwardCommand_retryOnAbort flaky_transport (nav_go\<lparr>retryOnAbort := Some True\<rparr>) 0
     = (Resolved ''{ok:true}'', 2)
   \<and> forwardCommand_retryOnAbort flaky_transport nav_go 0 = (Rejected TransportAbortError, 1)
   \<and> forwardCommand_retryOnAbort dead_transport (nav_go\<lparr>retryOnAbort := Some True\<rparr>) 0
     = (Rejected TransportAbortError, 2)"
proof -
  let ?c = "nav_go\<lparr>retryOnAbort := Some True\<rparr>"
  have f1: "sendCommand flaky_transport (resolveNextHop flaky_transport ?c 0) ?c 0 = (Aborted, 1)"
    by (simp add: flaky_transport_def)
  have f2: "sendCommand flaky_transport (resolveNextHop flaky_transport ?c 1) ?c 1
      = (Answered (Resolved ''{ok:true}''), 2)"
    by (simp add: flaky_transport_def)
  have g1: "sendCommand flaky_transport (resolveNextHop flaky_transport nav_go 0) nav_go 0
      = (Aborted, 1)"
    by (simp add: flaky_transport_def)
  have d1: "sendCommand dead_transport (resolveNextHop dead_transport ?c 0) ?c 0 = (Aborted, 1)"
    by (simp add: dead_transport_def)
  have d2: "sendCommand dead_transport (resolveNextHop dead_transport ?c 1) ?c 1 = (Aborted, 2)"
    by (simp add: dead_transport_def)
  have r: "retryOnAbort ?c = Some True" "retryOnAbort nav_go \<noteq> Some True"
    by (simp_all add: nav_go_def)
  from retryOnAbort_once [OF f1, of "Resolved ''{ok:true}''" 2] f2 r
  have a: "forwardCommand_retryOnAbort flaky_transport ?c 0 = (Resolved ''{ok:true}'', 2)" by simp
  from retryOnAbort_once [OF g1] r
  have b: "forwardCommand_retryOnAbort flaky_transport nav_go 0 = (Rejected TransportAbortError, 1)"
    by simp
  from retryOnAbort_once [OF d1, of _ 2] d2 r
  have c: "forwardCommand_retryOnAbort dead_transport ?c 0 = (Rejected TransportAbortError, 2)"
    by simp
  from a b c show ?thesis by simp
qed

end
